theory Spec2Isabelle
  imports Main "HOL-Library.Word"
begin

section \<open>Go values shared by the packages\<close>

text \<open>
  A Go \<^verbatim>\<open>error\<close> is a value: either a plain error carrying its message
  (\<^verbatim>\<open>fmt.Errorf\<close>, errors of the standard library) or a libcontainer error, which
  wraps a cause with one of the error codes. A nil error is \<open>None\<close>.
\<close>

datatype ErrorCode = IdInUse | InvalidIdFormat | ContainerNotExists | ConfigInvalid | SystemError

datatype err = Errorf string | GenericError err ErrorCode

text \<open>A call either returns, or panics (a nil dereference, an explicit \<^verbatim>\<open>panic\<close>).\<close>

datatype 'a result = Ok 'a | Err err | Panic

text \<open>\<^verbatim>\<open>strings.HasPrefix\<close>, \<^verbatim>\<open>strings.Contains\<close> and \<^verbatim>\<open>strings.Split\<close> with a
  one-byte separator. Go strings are byte sequences, as \<open>string\<close> is.\<close>

definition HasPrefix :: "string \<Rightarrow> string \<Rightarrow> bool" where
  "HasPrefix s p = (take (length p) s = p)"

fun Contains_str :: "string \<Rightarrow> string \<Rightarrow> bool" where
  "Contains_str [] sub = (sub = [])"
| "Contains_str (c # cs) sub = (HasPrefix (c # cs) sub \<or> Contains_str cs sub)"

fun Split :: "string \<Rightarrow> char \<Rightarrow> string list" where
  "Split [] sep = [[]]"
| "Split (c # cs) sep =
     (if c = sep then [] # Split cs sep
      else (case Split cs sep of [] \<Rightarrow> [[c]] | w # ws \<Rightarrow> (c # w) # ws))"

section \<open>Package configs: the parts of a configuration the code reads\<close>

record IDMap =
  ContainerID :: int
  HostID :: int
  Size :: int

datatype NamespaceType = NEWNET | NEWPID | NEWNS | NEWUTS | NEWIPC | NEWUSER

record Namespace =
  Type :: NamespaceType
  Path :: string

text \<open>
  A struct as \<^verbatim>\<open>reflect\<close> sees it: its exported fields in declaration order, each a name
  and a value. The values are Go values up to \<^verbatim>\<open>reflect.DeepEqual\<close>: a nil pointer,
  slice or map is \<open>GNil\<close> and differs from an empty slice \<open>GSlice []\<close>; pointers are
  compared by what they point to. \<open>zero_value\<close> is the zero value of the type of a
  value.
\<close>

datatype gvalue = GInt int | GStr string | GBool bool | GNil | GPtr gvalue | GSlice "gvalue list"

fun zero_value :: "gvalue \<Rightarrow> gvalue" where
  "zero_value (GInt n) = GInt 0"
| "zero_value (GStr s) = GStr []"
| "zero_value (GBool b) = GBool False"
| "zero_value GNil = GNil"
| "zero_value (GPtr v) = GNil"
| "zero_value (GSlice vs) = GNil"

text \<open>
  The declaration of \<^verbatim>\<open>configs.Resources\<close> is taken as a parameter: a value of the
  struct is the list of its fields.
\<close>

type_synonym Resources = "(string \<times> gvalue) list"

record Cgroup =
  Paths :: "(string \<rightharpoonup> string) option"
  Resources :: "Resources option"

record Mount =
  Source :: string
  Destination :: string
  Device :: string
  Data :: string

record Config =
  Namespaces :: "Namespace list"
  UidMappings :: "IDMap list"
  GidMappings :: "IDMap list"
  Mounts :: "Mount list"
  Cgroups :: "Cgroup option"
  Labels :: "string list"

section \<open>Package cgroups/rootless: the rootless cgroup manager\<close>

record Manager =
  m_Cgroups :: "Cgroup option"
  m_Paths :: "(string \<rightharpoonup> string) option"

datatype FreezerState = Undefined | Frozen | Thawed

definition Apply :: "Manager \<Rightarrow> int \<Rightarrow> err option" where
  "Apply m pid =
     (case m_Cgroups m of
        None \<Rightarrow> None
      | Some cg \<Rightarrow>
          if Paths cg \<noteq> None
          then Some (Errorf ''cannot change cgroup path in rootless container'')
          else None)"

definition GetPaths :: "Manager \<Rightarrow> (string \<rightharpoonup> string) option" where
  "GetPaths m = m_Paths m"

text \<open>\<open>Set\<close>, \<open>Freeze\<close> and \<open>Destroy\<close> have a pointer receiver; they return the error and
  the manager as they leave it.\<close>

definition Set :: "Manager \<Rightarrow> Config option \<Rightarrow> err option \<times> Manager" where
  "Set m container = (None, m)"

definition Freeze :: "Manager \<Rightarrow> FreezerState \<Rightarrow> err option \<times> Manager" where
  "Freeze m state = (Some (Errorf ''cannot use freezer cgroup in rootless container''), m)"

definition Destroy :: "Manager \<Rightarrow> err option \<times> Manager" where
  "Destroy m = (None, m)"

section \<open>Package libcontainer: rootless determination\<close>

text \<open>
  The process environment the code reads: the effective user and group ids of the
  invoking process. Linux ids are 32-bit unsigned; \<^verbatim>\<open>os.Geteuid\<close> and \<^verbatim>\<open>os.Getegid\<close>
  return them as a Go \<^verbatim>\<open>int\<close>.
\<close>

record Env =
  euid :: "32 word"
  egid :: "32 word"

definition Geteuid :: "Env \<Rightarrow> int" where
  "Geteuid env = uint (euid env)"

definition Getegid :: "Env \<Rightarrow> int" where
  "Getegid env = uint (egid env)"

text \<open>
  Modelled from the spec: \<^verbatim>\<open>Namespaces.Contains\<close> of package configs, whose source is
  not at hand. It tells whether the configuration has an entry of the given namespace
  type (``a user-namespace entry present in the configuration'').
\<close>

definition Contains :: "Namespace list \<Rightarrow> NamespaceType \<Rightarrow> bool" where
  "Contains ns t = (t \<in> set (map Type ns))"

text \<open>
  Modelled from the spec: the lookup of a container id in a list of mappings, which
  \<^verbatim>\<open>Config.HostUID\<close> and \<^verbatim>\<open>Config.HostGID\<close> of package configs need; their source is not
  at hand. The first mapping whose range of container ids has the id gives the host
  id at the same offset.
\<close>

fun hostIDFromMapping :: "int \<Rightarrow> IDMap list \<Rightarrow> int option" where
  "hostIDFromMapping containerID [] = None"
| "hostIDFromMapping containerID (m # ms) =
     (if ContainerID m \<le> containerID \<and> containerID \<le> ContainerID m + Size m - 1
      then Some (HostID m + (containerID - ContainerID m))
      else hostIDFromMapping containerID ms)"

text \<open>
  Modelled from the spec: \<^verbatim>\<open>Config.HostUID\<close> of package configs, ``the configured
  host-side root UID mapping'': the host id that the UID mappings give to the
  container's id 0. \<open>isRootless\<close> handles an error of the lookup; the lookup fails when
  a user namespace is configured and no mapping covers the container's id 0, and
  without a user namespace the container's root is the host's id 0.
\<close>

definition HostUID :: "Config \<Rightarrow> err + int" where
  "HostUID c =
     (if Contains (Namespaces c) NEWUSER
      then (case hostIDFromMapping 0 (UidMappings c) of
              None \<Rightarrow> Inl (Errorf ''User namespaces enabled, but no root user mapping found.'')
            | Some h \<Rightarrow> Inr h)
      else Inr 0)"

text \<open>
  Modelled from the spec: \<^verbatim>\<open>Config.HostGID\<close> of package configs, the same lookup in the
  GID mappings (``the host-side GID mapping'').
\<close>

definition HostGID :: "Config \<Rightarrow> err + int" where
  "HostGID c =
     (if Contains (Namespaces c) NEWUSER
      then (case hostIDFromMapping 0 (GidMappings c) of
              None \<Rightarrow> Inl (Errorf ''User namespaces enabled, but no root group mapping found.'')
            | Some h \<Rightarrow> Inr h)
      else Inr 0)"

text \<open>
  \<^verbatim>\<open>len(ms) != 1 || ms[0].Size != 1\<close>: the second operand is evaluated only when the
  list has exactly one element.
\<close>

definition not_single_unit :: "IDMap list \<Rightarrow> bool" where
  "not_single_unit ms = (case ms of [m] \<Rightarrow> Size m \<noteq> 1 | _ \<Rightarrow> True)"

text \<open>\<open>isRootless\<close> returns the pair \<^verbatim>\<open>(bool, error)\<close>.\<close>

definition isRootless :: "Env \<Rightarrow> Config \<Rightarrow> bool \<times> err option" where
  "isRootless env config =
     (case HostUID config of
        Inl e \<Rightarrow> (False, Some e)
      | Inr rootuid \<Rightarrow>
          (case (if Geteuid env \<noteq> 0
                 then (if \<not> Contains (Namespaces config) NEWUSER
                       then Inl (Errorf ''rootless containers require user namespaces'')
                       else if rootuid \<noteq> Geteuid env
                       then Inl (Errorf (''rootless containers cannot map container root''
                                         @ '' to a different host user''))
                       else Inr True)
                 else Inr False) of
             Inl e \<Rightarrow> (False, Some e)
           | Inr rootless \<Rightarrow>
               (case HostGID config of
                  Inl e \<Rightarrow> (False, Some e)
                | Inr rootgid \<Rightarrow>
                    if rootless \<and> rootgid \<noteq> Getegid env
                    then (False, Some (Errorf (''rootless containers cannot map container root''
                                               @ '' to a different host group'')))
                    else if rootless \<and> not_single_unit (UidMappings config)
                    then (False, Some (Errorf ''rootless containers cannot map more than one user''))
                    else if rootless \<and> not_single_unit (GidMappings config)
                    then (False, Some (Errorf ''rootless containers cannot map more than one group''))
                    else (rootless, None))))"

section \<open>Package configs/validate: the rootless validator\<close>

text \<open>
  \<^verbatim>\<open>reflect.Value.FieldByName\<close> on a struct value, and \<^verbatim>\<open>reflect.Zero\<close> of its type: the
  same fields, each with the zero value of its type.
\<close>

definition FieldByName :: "Resources \<Rightarrow> string \<Rightarrow> gvalue option" where
  "FieldByName v name = map_of v name"

definition reflect_Zero :: "Resources \<Rightarrow> Resources" where
  "reflect_Zero v = map (\<lambda>(name, x). (name, zero_value x)) v"

text \<open>The loop over the fields of the resources, by the field names in order.\<close>

fun cgroup_fields :: "string list \<Rightarrow> Resources \<Rightarrow> Resources \<Rightarrow> err option" where
  "cgroup_fields [] left right = None"
| "cgroup_fields (name # names) left right =
     (if Contains_str name ''Device'' then cgroup_fields names left right
      else if FieldByName left name \<noteq> FieldByName right name
      then Some (Errorf (''cannot specify resource limits in rootless container: field ''
                         @ [CHR 0x22] @ name @ [CHR 0x22] @ '' is non-default''))
      else cgroup_fields names left right)"

definition cgroup :: "Config \<Rightarrow> err option" where
  "cgroup config =
     (case Cgroups config of
        None \<Rightarrow> None
      | Some cg \<Rightarrow>
          (case Resources cg of
             None \<Rightarrow> None
           | Some left \<Rightarrow>
               let right = reflect_Zero left in
               if left = right then None
               else cgroup_fields (map fst left) left right))"

text \<open>The inner loop of \<open>mount\<close>, over the options of one mount.\<close>

fun mount_options :: "string list \<Rightarrow> err option" where
  "mount_options [] = None"
| "mount_options (opt # opts) =
     (if HasPrefix opt ''uid='' \<and> opt \<noteq> ''uid=0''
      then Some (Errorf
        ''cannot specify uid= mount options in rootless containers where argument isn't 0'')
      else if HasPrefix opt ''gid='' \<and> opt \<noteq> ''gid=0''
      then Some (Errorf
        ''cannot specify gid= mount options in rootless containers where argument isn't 0'')
      else mount_options opts)"

fun mount_loop :: "Mount list \<Rightarrow> err option" where
  "mount_loop [] = None"
| "mount_loop (m # ms) =
     (case mount_options (Split (Data m) (CHR '','')) of
        Some e \<Rightarrow> Some e
      | None \<Rightarrow> mount_loop ms)"

definition mount :: "Config \<Rightarrow> err option" where
  "mount config = mount_loop (Mounts config)"

text \<open>\<^verbatim>\<open>RootlessValidator.Validate\<close>; the configuration is a pointer and may be nil.\<close>

definition RootlessValidator_Validate :: "Config option \<Rightarrow> err option" where
  "RootlessValidator_Validate config =
     (case config of
        None \<Rightarrow> None
      | Some c \<Rightarrow>
          (case mount c of
             Some e \<Rightarrow> Some e
           | None \<Rightarrow> (case cgroup c of Some e \<Rightarrow> Some e | None \<Rightarrow> None)))"


text \<open>
  The wording of the specification for the resource limits. A field has its default
  when it holds the all-default value of its kind: the number 0, the empty string,
  false, or nil.
\<close>

definition is_default :: "gvalue \<Rightarrow> bool" where
  "is_default v \<longleftrightarrow> v = GInt 0 \<or> v = GStr [] \<or> v = GBool False \<or> v = GNil"

text \<open>
  Modelled from the spec: the declaration of \<^verbatim>\<open>configs.Resources\<close> is not at hand. Its
  device-access fields (``device-access rules'', the rules of the devices cgroup that
  the comments of \<open>cgroup\<close> speak of) are taken to be the fields that say which
  devices a container may access.
\<close>

definition devices_cgroup_field :: "string \<Rightarrow> bool" where
  "devices_cgroup_field name \<longleftrightarrow>
     name \<in> set [''AllowAllDevices'', ''AllowedDevices'', ''DeniedDevices'', ''Devices'']"

text \<open>
  An argument \<open>N\<close> of \<^verbatim>\<open>uid=N\<close> that is the number 0: one or more digits, all of them
  \<^verbatim>\<open>0\<close>.
\<close>

definition denotes_zero :: "string \<Rightarrow> bool" where
  "denotes_zero N \<longleftrightarrow> N \<noteq> [] \<and> (\<forall>c \<in> set N. c = CHR ''0'')"

section \<open>Package libcontainer: the factory\<close>

subsection \<open>Paths\<close>

text \<open>
  \<^verbatim>\<open>filepath.Clean\<close> and \<^verbatim>\<open>filepath.Join\<close> of two elements, on Unix: the path is cut
  at the slashes, empty and \<^verbatim>\<open>.\<close> elements go, and \<^verbatim>\<open>..\<close> takes the element before
  it away (at the root it goes itself; at the start of a relative path it stays).
\<close>

fun clean_step :: "bool \<Rightarrow> string list \<Rightarrow> string \<Rightarrow> string list" where
  "clean_step rooted stack elem =
     (if elem = [] \<or> elem = ''.'' then stack
      else if elem = ''..'' then
        (case stack of
           [] \<Rightarrow> if rooted then [] else [''..'']
         | last_elem # rest \<Rightarrow> if last_elem = ''..'' then ''..'' # stack else rest)
      else elem # stack)"

fun join_slash :: "string list \<Rightarrow> string" where
  "join_slash [] = []"
| "join_slash [e] = e"
| "join_slash (e # es) = e @ ''/'' @ join_slash es"

definition Clean :: "string \<Rightarrow> string" where
  "Clean path =
     (if path = [] then ''.''
      else
        let rooted = (hd path = CHR ''/'');
            out = join_slash (rev (foldl (clean_step rooted) [] (Split path (CHR ''/''))))
        in if rooted then CHR ''/'' # out else if out = [] then ''.'' else out)"

definition Join :: "string \<Rightarrow> string \<Rightarrow> string" where
  "Join a b =
     (if a \<noteq> [] then Clean (a @ ''/'' @ b) else if b \<noteq> [] then Clean b else [])"

text \<open>The directories above a path: what \<^verbatim>\<open>os.MkdirAll\<close> creates on the way.\<close>

definition ancestors :: "string \<Rightarrow> string list" where
  "ancestors path = [take n path. n \<leftarrow> [1..<length path], path ! n = CHR ''/'']"

subsection \<open>Containers and the persisted state\<close>

datatype Time = ZeroTime | UnixNano int

datatype CgroupManager =
    FsManager "Cgroup option" "(string \<rightharpoonup> string) option"
  | SystemdManager "Cgroup option" "(string \<rightharpoonup> string) option"
  | RootlessManager Manager

record nonChildProcess =
  processPid :: int
  processStartTime :: string
  fds :: "string list"

datatype containerState = stoppedState | createdState | runningState | pausedState | loadedState

text \<open>The fields of \<^verbatim>\<open>linuxContainer\<close> that the factory sets, with the prefix \<open>c_\<close>.\<close>

record Container =
  c_id :: string
  c_root :: string
  c_config :: Config
  c_initPath :: string
  c_initArgs :: "string list"
  c_criuPath :: string
  c_cgroupManager :: CgroupManager
  c_initProcess :: "nonChildProcess option"
  c_created :: Time
  c_rootless :: bool
  c_state :: containerState

record State =
  ID :: string
  InitProcessPid :: int
  InitProcessStartTime :: string
  Created :: Time
  StateConfig :: Config
  Rootless :: bool
  CgroupPaths :: "(string \<rightharpoonup> string) option"
  ExternalDescriptors :: "string list"

subsection \<open>The operating system as the factory sees it\<close>

text \<open>
  \<^verbatim>\<open>os.Stat\<close> succeeds, fails with an error for which \<^verbatim>\<open>os.IsNotExist\<close> holds, or fails
  otherwise. Opening and decoding a state file gives a state, the nil pointer (the
  JSON value \<^verbatim>\<open>null\<close>), or an error. The state of the system is what \<^verbatim>\<open>os.Stat\<close>
  answers at each path, whether \<^verbatim>\<open>os.MkdirAll\<close> fails there, what the state file at a
  path holds, and what \<^verbatim>\<open>refreshState\<close>, whose source is not at hand, finds for a
  container.
\<close>

datatype stat_result = StatExists | StatNotExist | StatFails err

datatype decoded = DecodeFails err | DecodedNull | Decoded State

datatype open_result = OpenNotExist err | OpenFails err | Opened decoded

record OS =
  stat :: "string \<Rightarrow> stat_result"
  mkdir_fails :: "string \<Rightarrow> err option"
  state_file :: "string \<Rightarrow> open_result"
  refreshState :: "Container \<Rightarrow> err + containerState"

definition Stat :: "OS \<Rightarrow> string \<Rightarrow> stat_result" where
  "Stat os path = stat os path"

text \<open>A successful \<^verbatim>\<open>os.MkdirAll\<close> leaves the path and the directories above it existing.\<close>

definition MkdirAll :: "OS \<Rightarrow> string \<Rightarrow> err + OS" where
  "MkdirAll os path =
     (case mkdir_fails os path of
        Some e \<Rightarrow> Inl e
      | None \<Rightarrow>
          Inr (os\<lparr>stat :=
                 (\<lambda>q. if (q = path \<or> q \<in> set (ancestors path)) \<and> stat os q = StatNotExist
                      then StatExists else stat os q)\<rparr>))"

subsection \<open>The factory\<close>

record LinuxFactory =
  Root :: string
  InitPath :: string
  InitArgs :: "string list"
  CriuPath :: string
  Validator :: "Config option \<Rightarrow> err option"
  NewCgroupsManager :: "Cgroup option \<Rightarrow> (string \<rightharpoonup> string) option \<Rightarrow> CgroupManager"

text \<open>The option functions for the cgroup manager; each returns nil.\<close>

definition SystemdCgroups :: "LinuxFactory \<Rightarrow> LinuxFactory" where
  "SystemdCgroups l = l\<lparr>NewCgroupsManager := (\<lambda>config paths. SystemdManager config paths)\<rparr>"

definition Cgroupfs :: "LinuxFactory \<Rightarrow> LinuxFactory" where
  "Cgroupfs l = l\<lparr>NewCgroupsManager := (\<lambda>config paths. FsManager config paths)\<rparr>"

definition RootlessCgroups :: "LinuxFactory \<Rightarrow> LinuxFactory" where
  "RootlessCgroups l =
     l\<lparr>NewCgroupsManager :=
         (\<lambda>config paths. RootlessManager \<lparr>m_Cgroups = config, m_Paths = paths\<rparr>)\<rparr>"

text \<open>
  Modelled from the spec: \<^verbatim>\<open>newGenericError\<close> is not at hand; it makes the error of the
  given kind from a cause.
\<close>

definition newGenericError :: "err \<Rightarrow> ErrorCode \<Rightarrow> err" where
  "newGenericError e c = GenericError e c"

definition stateFilename :: string where
  "stateFilename = ''state.json''"

definition maxIdLen :: nat where
  "maxIdLen = 1024"

text \<open>
  \<^verbatim>\<open>idRegex\<close> is \<^verbatim>\<open>^[\w+-\.]+$\<close>: one or more bytes, each a letter, a digit, the
  underscore, or in the range from \<^verbatim>\<open>+\<close> to \<^verbatim>\<open>.\<close>, which is \<^verbatim>\<open>+\<close>, \<^verbatim>\<open>,\<close>, \<^verbatim>\<open>-\<close>, \<^verbatim>\<open>.\<close>.
\<close>

definition idRegex_class :: "char \<Rightarrow> bool" where
  "idRegex_class c \<longleftrightarrow>
     c \<in> set (''0123456789'' @ ''ABCDEFGHIJKLMNOPQRSTUVWXYZ'' @ ''abcdefghijklmnopqrstuvwxyz''
              @ ''_'' @ ''+,-.'')"

definition MatchString :: "string \<Rightarrow> bool" where
  "MatchString s \<longleftrightarrow> s \<noteq> [] \<and> list_all idRegex_class s"

definition validateID :: "string \<Rightarrow> err option" where
  "validateID ident =
     (if \<not> MatchString ident
      then Some (newGenericError (Errorf (''invalid id format: '' @ ident)) InvalidIdFormat)
      else if length ident > maxIdLen
      then Some (newGenericError (Errorf (''invalid id format: '' @ ident)) InvalidIdFormat)
      else None)"

text \<open>
  \<open>Create\<close> returns the container or the error, the factory and the system as it leaves
  them. The configuration is a pointer; \<open>isRootless\<close> dereferences it.
\<close>

definition Create ::
  "Env \<Rightarrow> LinuxFactory \<Rightarrow> OS \<Rightarrow> string \<Rightarrow> Config option
     \<Rightarrow> Container result \<times> LinuxFactory \<times> OS" where
  "Create env l os ident config =
     (if Root l = [] then (Err (newGenericError (Errorf ''invalid root'') ConfigInvalid), l, os)
      else case validateID ident of
        Some e \<Rightarrow> (Err e, l, os)
      | None \<Rightarrow>
      (case Validator l config of
        Some e \<Rightarrow> (Err (newGenericError e ConfigInvalid), l, os)
      | None \<Rightarrow>
      (case config of
        None \<Rightarrow> (Panic, l, os)
      | Some cfg \<Rightarrow>
      (case isRootless env cfg of
        (rootless, Some e) \<Rightarrow> (Err (newGenericError e ConfigInvalid), l, os)
      | (rootless, None) \<Rightarrow>
      (case (if rootless then RootlessValidator_Validate config else None) of
        Some e \<Rightarrow> (Err (newGenericError e ConfigInvalid), l, os)
      | None \<Rightarrow>
        let containerRoot = Join (Root l) ident in
        (case Stat os containerRoot of
           StatExists \<Rightarrow>
             (Err (newGenericError (Errorf (''container with id exists: '' @ ident)) IdInUse),
              l, os)
         | StatFails e \<Rightarrow> (Err (newGenericError e SystemError), l, os)
         | StatNotExist \<Rightarrow>
             (case MkdirAll os containerRoot of
                Inl e \<Rightarrow> (Err (newGenericError e SystemError), l, os)
              | Inr os' \<Rightarrow>
                  let l' = (if rootless then RootlessCgroups l else l) in
                  (Ok \<lparr>c_id = ident,
                       c_root = containerRoot,
                       c_config = cfg,
                       c_initPath = InitPath l',
                       c_initArgs = InitArgs l',
                       c_criuPath = CriuPath l',
                       c_cgroupManager = NewCgroupsManager l' (Cgroups cfg) None,
                       c_initProcess = None,
                       c_created = ZeroTime,
                       c_rootless = rootless,
                       c_state = stoppedState\<rparr>, l', os'))))))))"

definition loadState :: "OS \<Rightarrow> string \<Rightarrow> err + State option" where
  "loadState os root =
     (case state_file os (Join root stateFilename) of
        OpenNotExist e \<Rightarrow> Inl (newGenericError e ContainerNotExists)
      | OpenFails e \<Rightarrow> Inl (newGenericError e SystemError)
      | Opened d \<Rightarrow>
          (case d of
             DecodeFails e \<Rightarrow> Inl (newGenericError e SystemError)
           | DecodedNull \<Rightarrow> Inr None
           | Decoded state \<Rightarrow> Inr (Some state)))"

text \<open>\<open>Load\<close> changes neither the factory nor the files; a nil state is dereferenced.\<close>

definition Load :: "LinuxFactory \<Rightarrow> OS \<Rightarrow> string \<Rightarrow> Container result" where
  "Load l os ident =
     (if Root l = [] then Err (newGenericError (Errorf ''invalid root'') ConfigInvalid)
      else
        let containerRoot = Join (Root l) ident in
        (case loadState os containerRoot of
           Inl e \<Rightarrow> Err e
         | Inr None \<Rightarrow> Panic
         | Inr (Some state) \<Rightarrow>
             let r = \<lparr>processPid = InitProcessPid state,
                      processStartTime = InitProcessStartTime state,
                      fds = ExternalDescriptors state\<rparr>;
                 c = \<lparr>c_id = ident,
                      c_root = containerRoot,
                      c_config = StateConfig state,
                      c_initPath = InitPath l,
                      c_initArgs = InitArgs l,
                      c_criuPath = CriuPath l,
                      c_cgroupManager =
                        NewCgroupsManager l (Cgroups (StateConfig state)) (CgroupPaths state),
                      c_initProcess = Some r,
                      c_created = Created state,
                      c_rootless = Rootless state,
                      c_state = loadedState\<rparr>
             in (case refreshState os c of
                   Inl e \<Rightarrow> Err e
                 | Inr st \<Rightarrow> Ok (c\<lparr>c_state := st\<rparr>))))"

text \<open>
  A valid configuration for a factory and an invoking process: the validator of the
  factory accepts it, \<open>isRootless\<close> gives no error for it and, when it is rootless, the
  rootless validator accepts it.
\<close>

definition valid_config :: "Env \<Rightarrow> LinuxFactory \<Rightarrow> Config \<Rightarrow> bool" where
  "valid_config env l cfg \<longleftrightarrow>
     Validator l (Some cfg) = None
     \<and> snd (isRootless env cfg) = None
     \<and> (fst (isRootless env cfg) \<longrightarrow> RootlessValidator_Validate (Some cfg) = None)"

abbreviation rootless_constructor ::
  "Cgroup option \<Rightarrow> (string \<rightharpoonup> string) option \<Rightarrow> CgroupManager" where
  "rootless_constructor \<equiv>
     (\<lambda>config paths. RootlessManager \<lparr>m_Cgroups = config, m_Paths = paths\<rparr>)"

subsection \<open>The init process\<close>

text \<open>
  \<open>StartInitialization\<close> runs in the child. What it calls is not at hand and is given
  with the run: the two variables read from the environment, what \<^verbatim>\<open>strconv.Atoi\<close>
  makes of the one with the pipe descriptor, what \<^verbatim>\<open>newContainerInit\<close> does for an init
  type (it returns an initer or an error, or panics), what \<open>Init\<close> of an initer does (it
  returns, panics, or replaces the process image and never returns), the text of the
  stack at a panic, and whether each of the two \<^verbatim>\<open>utils.WriteJSON\<close> calls fails. The
  result is the list of what happened on the pipe, in order, and how the function
  ends.
\<close>

datatype initer = linuxSetnsInit | linuxStandardInit

datatype panic_value = PanicError err | PanicText string

datatype 'a call = Returns 'a | Panics panic_value

datatype init_call = InitReturns "err option" | InitPanics panic_value | InitExecs

datatype pipe_event = WroteSync | WroteSystemError "err option" | ClosedPipe

datatype exit = Return "err option" | Panicked panic_value | Execed

record InitRun =
  INITPIPE :: string
  Atoi :: "err + int"
  INITTYPE :: string
  newContainerInit :: "string \<Rightarrow> (err + initer) call"
  Init :: "initer \<Rightarrow> init_call"
  Stack :: string
  WriteJSON_sync :: "err option"
  WriteJSON_error :: "err option \<Rightarrow> err option"

text \<open>The text of an error (its \<open>Error\<close> method) and of a panic value, as \<^verbatim>\<open>%v\<close> prints it.\<close>

fun Error :: "err \<Rightarrow> string" where
  "Error (Errorf s) = s"
| "Error (GenericError e c) = Error e"

fun panic_text :: "panic_value \<Rightarrow> string" where
  "panic_text (PanicText s) = s"
| "panic_text (PanicError e) = Error e"

text \<open>The deferred function that is registered second and runs first: it turns a panic
  of the body into the error result.\<close>

definition recover_panic :: "InitRun \<Rightarrow> err option call \<Rightarrow> err option" where
  "recover_panic run body =
     (case body of
        Returns e \<Rightarrow> e
      | Panics v \<Rightarrow>
          Some (Errorf (''panic from initialization: '' @ panic_text v @ '', '' @ Stack run)))"

text \<open>
  The deferred function that is registered first and runs last. It writes the sync
  token when the initer is a \<^verbatim>\<open>*linuxStandardInit\<close>, then the system error made of the
  error result, and closes the pipe; a failed write is a panic, which nothing recovers.
\<close>

definition send_error :: "InitRun \<Rightarrow> initer option \<Rightarrow> err option \<Rightarrow> pipe_event list \<times> exit" where
  "send_error run i e =
     (let sync = (if i = Some linuxStandardInit then [WroteSync] else []) in
      case (if i = Some linuxStandardInit then WriteJSON_sync run else None) of
        Some werr \<Rightarrow> ([], Panicked (PanicError werr))
      | None \<Rightarrow>
          (case WriteJSON_error run e of
             Some werr \<Rightarrow> (sync, Panicked (PanicError werr))
           | None \<Rightarrow> (sync @ [WroteSystemError e, ClosedPipe], Return e)))"

definition StartInitialization :: "InitRun \<Rightarrow> pipe_event list \<times> exit" where
  "StartInitialization run =
     (case Atoi run of
        Inl e \<Rightarrow>
          ([], Return (Some (Errorf
                 (''error converting env var _LIBCONTAINER_INITPIPE('' @ [CHR 0x22]
                  @ INITPIPE run @ [CHR 0x22] @ '') to an int: '' @ Error e))))
      | Inr pipefd \<Rightarrow>
          (case newContainerInit run (INITTYPE run) of
             Panics v \<Rightarrow> send_error run None (recover_panic run (Panics v))
           | Returns (Inl e) \<Rightarrow> send_error run None (recover_panic run (Returns (Some e)))
           | Returns (Inr i) \<Rightarrow>
               (case Init run i of
                  InitExecs \<Rightarrow> ([], Execed)
                | InitReturns e \<Rightarrow> send_error run (Some i) (recover_panic run (Returns e))
                | InitPanics v \<Rightarrow> send_error run (Some i) (recover_panic run (Panics v)))))"

text \<open>
  The fault of a run that has a pipe: the error that the body returns, or the panic of
  the body; there is none when the process image is replaced. And the initer that
  \<^verbatim>\<open>newContainerInit\<close> returned, if it returned one.
\<close>

definition fault :: "InitRun \<Rightarrow> err option call option" where
  "fault run =
     (case newContainerInit run (INITTYPE run) of
        Panics v \<Rightarrow> Some (Panics v)
      | Returns (Inl e) \<Rightarrow> Some (Returns (Some e))
      | Returns (Inr i) \<Rightarrow>
          (case Init run i of
             InitExecs \<Rightarrow> None
           | InitReturns e \<Rightarrow> Some (Returns e)
           | InitPanics v \<Rightarrow> Some (Panics v)))"

definition made_initer :: "InitRun \<Rightarrow> initer option" where
  "made_initer run =
     (case newContainerInit run (INITTYPE run) of Returns (Inr i) \<Rightarrow> Some i | _ \<Rightarrow> None)"

section \<open>Command list: the containers of a root directory\<close>














section \<open>Package specconv: making a spec rootless\<close>












section \<open>Example inputs\<close>

abbreviation userns_entry :: Namespace where
  "userns_entry \<equiv> \<lparr>Type = NEWUSER, Path = []\<rparr>"

abbreviation root_to :: "int \<Rightarrow> IDMap" where
  "root_to h \<equiv> \<lparr>ContainerID = 0, HostID = h, Size = 1\<rparr>"

abbreviation config_of :: "Namespace list \<Rightarrow> IDMap list \<Rightarrow> IDMap list \<Rightarrow> Config" where
  "config_of ns us gs \<equiv>
     \<lparr>Namespaces = ns, UidMappings = us, GidMappings = gs, Mounts = [], Cgroups = None,
      Labels = []\<rparr>"




text \<open>A factory as \<^verbatim>\<open>New\<close> leaves it, with a validator that accepts everything, and a
  system where no state file exists.\<close>

abbreviation example_factory :: "string \<Rightarrow> LinuxFactory" where
  "example_factory root_dir \<equiv>
     \<lparr>Root = root_dir, InitPath = ''/proc/self/exe'', InitArgs = [''runc'', ''init''],
      CriuPath = ''criu'', Validator = (\<lambda>config. None),
      NewCgroupsManager = (\<lambda>config paths. FsManager config paths)\<rparr>"

abbreviation example_os :: "(string \<Rightarrow> stat_result) \<Rightarrow> (string \<Rightarrow> err option) \<Rightarrow> OS" where
  "example_os st mk \<equiv>
     \<lparr>stat = st, mkdir_fails = mk,
      state_file = (\<lambda>path. OpenNotExist (Errorf ''no such file or directory'')),
      refreshState = (\<lambda>c. Inr stoppedState)\<rparr>"

abbreviation example_run ::
  "string \<Rightarrow> err + int \<Rightarrow> (err + initer) call \<Rightarrow> init_call \<Rightarrow> InitRun" where
  "example_run fdStr atoi made init \<equiv>
     \<lparr>INITPIPE = fdStr, Atoi = atoi, INITTYPE = ''standard'',
      newContainerInit = (\<lambda>it. made), Init = (\<lambda>i. init), Stack = ''goroutine 1'',
      WriteJSON_sync = None, WriteJSON_error = (\<lambda>e. None)\<rparr>"



section \<open>Properties\<close>

subsection \<open>The rootless cgroup manager\<close>

text \<open>
  C6. \<open>Apply\<close> returns nil for every pid when the cgroup configuration is absent or has
  no explicit path mapping, and an error for every pid when the configuration has a
  non-nil path mapping (an empty one included). \<open>Freeze\<close> returns an error for every
  state. \<open>Set\<close> and \<open>Destroy\<close> return nil and leave the manager as it was.
\<close>

theorem rootless_manager_operations:
  "(m_Cgroups m = None \<longrightarrow> Apply m pid = None)
   \<and> (\<forall>cg. m_Cgroups m = Some cg \<and> Paths cg = None \<longrightarrow> Apply m pid = None)
   \<and> (\<forall>cg. m_Cgroups m = Some cg \<and> Paths cg \<noteq> None \<longrightarrow> Apply m pid \<noteq> None)
   \<and> fst (Freeze m state) \<noteq> None
   \<and> Set m container = (None, m)
   \<and> Destroy m = (None, m)"
  by (simp add: Apply_def Freeze_def Set_def Destroy_def)

theorem rootless_manager_operations_witness:
  "Apply \<lparr>m_Cgroups = None, m_Paths = None\<rparr> 7 = None
   \<and> Apply \<lparr>m_Cgroups = Some \<lparr>Paths = None, Resources = None\<rparr>, m_Paths = None\<rparr> 7 = None
   \<and> Apply \<lparr>m_Cgroups = Some \<lparr>Paths = Some Map.empty, Resources = None\<rparr>, m_Paths = None\<rparr> 7
       \<noteq> None"
  using rootless_manager_operations
    [of "\<lparr>m_Cgroups = None, m_Paths = None\<rparr>" 7]
    rootless_manager_operations
    [of "\<lparr>m_Cgroups = Some \<lparr>Paths = None, Resources = None\<rparr>, m_Paths = None\<rparr>" 7]
    rootless_manager_operations
    [of "\<lparr>m_Cgroups = Some \<lparr>Paths = Some Map.empty, Resources = None\<rparr>, m_Paths = None\<rparr>" 7]
  by simp

subsection \<open>Rootless determination\<close>

lemma not_single_unit_iff:
  "not_single_unit ms \<longleftrightarrow> length ms \<noteq> 1 \<or> (\<exists>m\<in>set ms. Size m \<noteq> 1)"
  by (auto simp: not_single_unit_def split: list.splits)

lemma HostUID_found_nonempty:
  "Contains (Namespaces cfg) NEWUSER \<Longrightarrow> HostUID cfg = Inr u \<Longrightarrow> UidMappings cfg \<noteq> []"
  by (auto simp: HostUID_def)

lemma HostGID_found_nonempty:
  "Contains (Namespaces cfg) NEWUSER \<Longrightarrow> HostGID cfg = Inr g \<Longrightarrow> GidMappings cfg \<noteq> []"
  by (auto simp: HostGID_def)

text \<open>
  C1, as stated, fails in its first case. The two host-id lookups come before the test
  of the effective UID, and their error is returned: for the effective UID 0 and a
  configuration with a user namespace and no mapping of the container's root, the
  result is \<open>(false, error)\<close>, not \<open>(false, nil)\<close>.
\<close>

theorem isRootless_root_lookup_error:
  "Geteuid \<lparr>euid = 0, egid = 0\<rparr> = 0
   \<and> isRootless \<lparr>euid = 0, egid = 0\<rparr> (config_of [userns_entry] [] []) \<noteq> (False, None)
   \<and> snd (isRootless \<lparr>euid = 0, egid = 0\<rparr> (config_of [userns_entry] [] [])) \<noteq> None"
  by (simp add: isRootless_def HostUID_def Contains_def Geteuid_def)

text \<open>
  C1, amended. With the effective UID 0 the boolean is false, and the error is nil
  exactly when both host-id lookups succeed (else it is the error of the first lookup
  that fails). With an effective UID other than 0, each of these gives an error: no
  user-namespace entry; a host-side root UID other than the effective UID (a failed
  lookup included); a number of UID mappings or of GID mappings other than one, or a
  mapping of a size other than 1; a host-side root GID other than the effective GID.
  Otherwise the result is \<open>(true, nil)\<close>.
\<close>

theorem isRootless_case_analysis:
  "(Geteuid env = 0 \<longrightarrow>
      isRootless env cfg =
        (False, case HostUID cfg of Inl e \<Rightarrow> Some e
                | Inr u \<Rightarrow> (case HostGID cfg of Inl e \<Rightarrow> Some e | Inr g \<Rightarrow> None)))
   \<and> (Geteuid env \<noteq> 0 \<and> \<not> Contains (Namespaces cfg) NEWUSER \<longrightarrow>
        (\<exists>e. isRootless env cfg = (False, Some e)))
   \<and> (Geteuid env \<noteq> 0 \<and> HostUID cfg \<noteq> Inr (Geteuid env) \<longrightarrow>
        (\<exists>e. isRootless env cfg = (False, Some e)))
   \<and> (Geteuid env \<noteq> 0
        \<and> (length (UidMappings cfg) \<noteq> 1 \<or> length (GidMappings cfg) \<noteq> 1
           \<or> (\<exists>m \<in> set (UidMappings cfg) \<union> set (GidMappings cfg). Size m \<noteq> 1)) \<longrightarrow>
        (\<exists>e. isRootless env cfg = (False, Some e)))
   \<and> (Geteuid env \<noteq> 0 \<and> HostGID cfg \<noteq> Inr (Getegid env) \<longrightarrow>
        (\<exists>e. isRootless env cfg = (False, Some e)))
   \<and> (Geteuid env \<noteq> 0 \<and> Contains (Namespaces cfg) NEWUSER
        \<and> HostUID cfg = Inr (Geteuid env) \<and> HostGID cfg = Inr (Getegid env)
        \<and> length (UidMappings cfg) \<le> 1 \<and> length (GidMappings cfg) \<le> 1
        \<and> (\<forall>m \<in> set (UidMappings cfg) \<union> set (GidMappings cfg). Size m = 1) \<longrightarrow>
        isRootless env cfg = (True, None))"
proof (intro conjI impI)
  assume "Geteuid env = 0"
  then show "isRootless env cfg =
        (False, case HostUID cfg of Inl e \<Rightarrow> Some e
                | Inr u \<Rightarrow> (case HostGID cfg of Inl e \<Rightarrow> Some e | Inr g \<Rightarrow> None))"
    by (simp add: isRootless_def split: sum.splits)
next
  assume "Geteuid env \<noteq> 0 \<and> \<not> Contains (Namespaces cfg) NEWUSER"
  then show "\<exists>e. isRootless env cfg = (False, Some e)"
    by (simp add: isRootless_def split: sum.splits)
next
  assume "Geteuid env \<noteq> 0 \<and> HostUID cfg \<noteq> Inr (Geteuid env)"
  then show "\<exists>e. isRootless env cfg = (False, Some e)"
    by (auto simp add: isRootless_def Let_def split: sum.splits)
next
  assume a: "Geteuid env \<noteq> 0
        \<and> (length (UidMappings cfg) \<noteq> 1 \<or> length (GidMappings cfg) \<noteq> 1
           \<or> (\<exists>m \<in> set (UidMappings cfg) \<union> set (GidMappings cfg). Size m \<noteq> 1))"
  then have "not_single_unit (UidMappings cfg) \<or> not_single_unit (GidMappings cfg)"
    unfolding not_single_unit_iff by blast
  with a show "\<exists>e. isRootless env cfg = (False, Some e)"
    by (auto simp add: isRootless_def Let_def split: sum.splits)
next
  assume "Geteuid env \<noteq> 0 \<and> HostGID cfg \<noteq> Inr (Getegid env)"
  then show "\<exists>e. isRootless env cfg = (False, Some e)"
    by (auto simp add: isRootless_def Let_def split: sum.splits)
next
  assume a: "Geteuid env \<noteq> 0 \<and> Contains (Namespaces cfg) NEWUSER
        \<and> HostUID cfg = Inr (Geteuid env) \<and> HostGID cfg = Inr (Getegid env)
        \<and> length (UidMappings cfg) \<le> 1 \<and> length (GidMappings cfg) \<le> 1
        \<and> (\<forall>m \<in> set (UidMappings cfg) \<union> set (GidMappings cfg). Size m = 1)"
  then have "UidMappings cfg \<noteq> []" "GidMappings cfg \<noteq> []"
    using HostUID_found_nonempty HostGID_found_nonempty by blast+
  with a have "length (UidMappings cfg) = 1" "length (GidMappings cfg) = 1"
    by (simp_all add: le_Suc_eq)
  with a have "\<not> not_single_unit (UidMappings cfg)" "\<not> not_single_unit (GidMappings cfg)"
    unfolding not_single_unit_iff by blast+
  with a show "isRootless env cfg = (True, None)"
    by (simp add: isRootless_def Let_def)
qed

theorem isRootless_case_analysis_witness:
  "isRootless \<lparr>euid = 0, egid = 0\<rparr> (config_of [] [] []) = (False, None)
   \<and> (\<exists>e. isRootless \<lparr>euid = 1000, egid = 1000\<rparr> (config_of [] [root_to 1000] [root_to 1000])
            = (False, Some e))
   \<and> isRootless \<lparr>euid = 1000, egid = 1000\<rparr>
        (config_of [userns_entry] [root_to 1000] [root_to 1000]) = (True, None)"
  using isRootless_case_analysis [of "\<lparr>euid = 0, egid = 0\<rparr>" "config_of [] [] []"]
    isRootless_case_analysis
      [of "\<lparr>euid = 1000, egid = 1000\<rparr>" "config_of [] [root_to 1000] [root_to 1000]"]
    isRootless_case_analysis
      [of "\<lparr>euid = 1000, egid = 1000\<rparr>"
          "config_of [userns_entry] [root_to 1000] [root_to 1000]"]
  by (simp add: HostUID_def HostGID_def Contains_def Geteuid_def Getegid_def)

text \<open>
  C7, as stated, fails: the result also depends on whether the configuration has a
  user-namespace entry. Two configurations with the same UID and GID mappings, under
  the same effective ids, one with the entry and one without it, get different
  results.
\<close>

theorem isRootless_depends_on_namespaces:
  "UidMappings (config_of [userns_entry] [root_to 1000] [root_to 1000])
     = UidMappings (config_of [] [root_to 1000] [root_to 1000])
   \<and> GidMappings (config_of [userns_entry] [root_to 1000] [root_to 1000])
     = GidMappings (config_of [] [root_to 1000] [root_to 1000])
   \<and> isRootless \<lparr>euid = 1000, egid = 1000\<rparr>
        (config_of [userns_entry] [root_to 1000] [root_to 1000]) = (True, None)
   \<and> isRootless \<lparr>euid = 1000, egid = 1000\<rparr> (config_of [] [root_to 1000] [root_to 1000])
       = (False, Some (Errorf ''rootless containers require user namespaces''))"
  by (simp add: isRootless_def HostUID_def HostGID_def Contains_def Geteuid_def Getegid_def
      not_single_unit_def)

text \<open>
  C7, amended. The result is a function of the effective UID, the effective GID, the
  UID mappings, the GID mappings and the presence of a user-namespace entry: two
  configurations that agree on the mappings and on that presence get the same result
  under the same effective ids.
\<close>

theorem isRootless_determined_by:
  assumes "UidMappings c1 = UidMappings c2" and "GidMappings c1 = GidMappings c2"
    and "Contains (Namespaces c1) NEWUSER = Contains (Namespaces c2) NEWUSER"
  shows "isRootless env c1 = isRootless env c2"
proof -
  have u: "HostUID c1 = HostUID c2"
    using assms by (simp add: HostUID_def)
  have g: "HostGID c1 = HostGID c2"
    using assms by (simp add: HostGID_def)
  show ?thesis
    unfolding isRootless_def u g assms ..
qed

theorem isRootless_determined_by_witness:
  "isRootless \<lparr>euid = 1000, egid = 1000\<rparr>
     \<lparr>Namespaces = [userns_entry], UidMappings = [root_to 1000], GidMappings = [root_to 1000],
      Mounts = [], Cgroups = None, Labels = [''bundle=/b'']\<rparr>
   = isRootless \<lparr>euid = 1000, egid = 1000\<rparr>
       (config_of [\<lparr>Type = NEWPID, Path = []\<rparr>, userns_entry] [root_to 1000] [root_to 1000])"
  by (rule isRootless_determined_by) (simp_all add: Contains_def)

subsection \<open>The rootless validator\<close>










subsection \<open>Making a spec rootless\<close>







subsection \<open>Creating a container\<close>

lemma validateID_cases:
  "validateID ident = None \<longleftrightarrow> MatchString ident \<and> length ident \<le> maxIdLen"
  "validateID ident \<noteq> None \<Longrightarrow> validateID ident = Some (GenericError (Errorf (''invalid id format: '' @ ident)) InvalidIdFormat)"
  by (auto simp: validateID_def newGenericError_def)

lemma Create_valid:
  assumes "Root l \<noteq> []" "validateID ident = None" "valid_config env l cfg"
  shows "Create env l os ident (Some cfg) =
     (case Stat os (Join (Root l) ident) of
        StatExists \<Rightarrow> (Err (GenericError (Errorf (''container with id exists: '' @ ident)) IdInUse), l, os)
      | StatFails e \<Rightarrow> (Err (GenericError e SystemError), l, os)
      | StatNotExist \<Rightarrow>
          (case MkdirAll os (Join (Root l) ident) of
             Inl e \<Rightarrow> (Err (GenericError e SystemError), l, os)
           | Inr os' \<Rightarrow>
               let l' = (if fst (isRootless env cfg) then RootlessCgroups l else l) in
               (Ok \<lparr>c_id = ident, c_root = Join (Root l) ident, c_config = cfg,
                    c_initPath = InitPath l, c_initArgs = InitArgs l, c_criuPath = CriuPath l,
                    c_cgroupManager = NewCgroupsManager l' (Cgroups cfg) None,
                    c_initProcess = None, c_created = ZeroTime,
                    c_rootless = fst (isRootless env cfg), c_state = stoppedState\<rparr>, l', os')))"
proof -
  obtain r where r: "isRootless env cfg = (r, None)"
    using assms(3) by (cases "isRootless env cfg") (auto simp: valid_config_def)
  show ?thesis
    using assms r
    by (auto simp: Create_def valid_config_def newGenericError_def Let_def RootlessCgroups_def
        split: stat_result.splits sum.splits)
qed

lemma Create_invalid:
  assumes "Root l = [] \<or> validateID ident \<noteq> None \<or> Validator l config \<noteq> None
     \<or> (\<exists>cfg. config = Some cfg \<and> \<not> valid_config env l cfg)"
  shows "\<exists>e. Create env l os ident config = (Err e, l, os)"
  using assms
  by (auto simp: Create_def valid_config_def split: option.splits prod.splits)

lemma Create_invalid_id:
  assumes "Root l \<noteq> []" "\<not> MatchString ident \<or> length ident > maxIdLen"
  shows "\<exists>e. Create env l os ident config = (Err (GenericError e InvalidIdFormat), l, os)"
  using assms
  by (auto simp: Create_def validateID_def newGenericError_def)

lemma MkdirAll_Inr:
  "MkdirAll os path = Inr os' \<Longrightarrow> stat os path = StatNotExist \<Longrightarrow> stat os' path = StatExists"
  by (auto simp: MkdirAll_def split: option.splits)

lemma valid_config_RootlessCgroups:
  "valid_config env (RootlessCgroups l) cfg = valid_config env l cfg"
  by (simp add: valid_config_def RootlessCgroups_def)

text \<open>
  C3, as stated, fails for a factory with the empty root: \<open>Create\<close> tests the root before
  the id, and an id outside the pattern gets \<open>ConfigInvalid\<close> (``invalid root''), not
  \<open>InvalidIdFormat\<close>.
\<close>

theorem Create_empty_root_invalid_id:
  "\<not> MatchString ''a/b''
   \<and> Create \<lparr>euid = 0, egid = 0\<rparr> (example_factory []) (example_os (\<lambda>path. StatNotExist) (\<lambda>path. None))
        ''a/b'' (Some (config_of [] [] []))
     = (Err (GenericError (Errorf ''invalid root'') ConfigInvalid), example_factory [],
        example_os (\<lambda>path. StatNotExist) (\<lambda>path. None))"
  by (simp add: MatchString_def idRegex_class_def Create_def newGenericError_def)

text \<open>
  C3, amended. For a factory with a non-empty root, every id that is outside the
  pattern or longer than 1024 bytes gets \<open>InvalidIdFormat\<close>. And every call that fails
  the validation of the id, of the configuration or of the rootless constraints returns
  an error and leaves the factory and the files as they were.
\<close>

theorem Create_validation_failures:
  "(Root l \<noteq> [] \<and> (\<not> MatchString ident \<or> length ident > 1024) \<longrightarrow>
      (\<exists>e. Create env l os ident config = (Err (GenericError e InvalidIdFormat), l, os)))
   \<and> (\<not> MatchString ident \<or> length ident > 1024 \<or> Validator l config \<noteq> None
       \<or> (\<exists>cfg. config = Some cfg
             \<and> (snd (isRootless env cfg) \<noteq> None
                \<or> (fst (isRootless env cfg) \<and> RootlessValidator_Validate config \<noteq> None))) \<longrightarrow>
      (\<exists>e. Create env l os ident config = (Err e, l, os)))"
proof (intro conjI impI)
  assume "Root l \<noteq> [] \<and> (\<not> MatchString ident \<or> length ident > 1024)"
  then show "\<exists>e. Create env l os ident config = (Err (GenericError e InvalidIdFormat), l, os)"
    using Create_invalid_id [of l ident] by (simp add: maxIdLen_def)
next
  assume a: "\<not> MatchString ident \<or> length ident > 1024 \<or> Validator l config \<noteq> None
       \<or> (\<exists>cfg. config = Some cfg
             \<and> (snd (isRootless env cfg) \<noteq> None
                \<or> (fst (isRootless env cfg) \<and> RootlessValidator_Validate config \<noteq> None)))"
  have "validateID ident \<noteq> None \<or> Validator l config \<noteq> None
     \<or> (\<exists>cfg. config = Some cfg \<and> \<not> valid_config env l cfg)"
    using a validateID_cases(1) [of ident] unfolding valid_config_def maxIdLen_def by fastforce
  then show "\<exists>e. Create env l os ident config = (Err e, l, os)"
    using Create_invalid by blast
qed

theorem Create_validation_failures_witness:
  "(\<exists>e. Create \<lparr>euid = 0, egid = 0\<rparr> (example_factory ''/run/demo'')
          (example_os (\<lambda>path. StatNotExist) (\<lambda>path. None)) ''a/b'' None
        = (Err (GenericError e InvalidIdFormat), example_factory ''/run/demo'',
           example_os (\<lambda>path. StatNotExist) (\<lambda>path. None)))
   \<and> (\<exists>e. Create \<lparr>euid = 1000, egid = 1000\<rparr> (example_factory ''/run/demo'')
          (example_os (\<lambda>path. StatNotExist) (\<lambda>path. None)) ''c1'' (Some (config_of [] [] []))
        = (Err e, example_factory ''/run/demo'',
           example_os (\<lambda>path. StatNotExist) (\<lambda>path. None)))"
  using Create_validation_failures
      [of "example_factory ''/run/demo''" "''a/b''" "\<lparr>euid = 0, egid = 0\<rparr>"
          "example_os (\<lambda>path. StatNotExist) (\<lambda>path. None)" None]
    Create_validation_failures
      [of "example_factory ''/run/demo''" "''c1''" "\<lparr>euid = 1000, egid = 1000\<rparr>"
          "example_os (\<lambda>path. StatNotExist) (\<lambda>path. None)" "Some (config_of [] [] [])"]
  by (simp add: MatchString_def idRegex_class_def isRootless_def HostUID_def Contains_def
      Geteuid_def)

text \<open>
  C4, as stated, fails: with a well-formed id, a valid configuration and no directory
  at the container's path, \<open>Create\<close> does not succeed when \<^verbatim>\<open>os.MkdirAll\<close> fails; it
  returns \<open>SystemError\<close>.
\<close>

theorem Create_mkdir_failure:
  "validateID ''c1'' = None
   \<and> valid_config \<lparr>euid = 0, egid = 0\<rparr> (example_factory ''/run/demo'') (config_of [] [] [])
   \<and> Stat (example_os (\<lambda>path. StatNotExist) (\<lambda>path. Some (Errorf ''permission denied'')))
        (Join ''/run/demo'' ''c1'') = StatNotExist
   \<and> Create \<lparr>euid = 0, egid = 0\<rparr> (example_factory ''/run/demo'')
        (example_os (\<lambda>path. StatNotExist) (\<lambda>path. Some (Errorf ''permission denied'')))
        ''c1'' (Some (config_of [] [] []))
     = (Err (GenericError (Errorf ''permission denied'') SystemError),
        example_factory ''/run/demo'',
        example_os (\<lambda>path. StatNotExist) (\<lambda>path. Some (Errorf ''permission denied'')))"
proof -
  have v: "validateID ''c1'' = None"
    by (simp add: validateID_def MatchString_def idRegex_class_def maxIdLen_def)
  have c: "valid_config \<lparr>euid = 0, egid = 0\<rparr> (example_factory ''/run/demo'') (config_of [] [] [])"
    by (simp add: valid_config_def isRootless_def HostUID_def HostGID_def Contains_def Geteuid_def)
  show ?thesis
    using v c by (simp add: Create_valid Stat_def MkdirAll_def)
qed


text \<open>
  C4, amended. For a factory with a non-empty root, an id inside the pattern of at most
  1024 bytes and a valid configuration: when \<^verbatim>\<open>os.Stat\<close> finds the container's path,
  \<open>Create\<close> returns \<open>IdInUse\<close>; \<open>Create\<close> succeeds exactly when \<^verbatim>\<open>os.Stat\<close> reports that
  the path does not exist and \<^verbatim>\<open>os.MkdirAll\<close> succeeds; another failure of \<^verbatim>\<open>os.Stat\<close>
  and a failure of \<^verbatim>\<open>os.MkdirAll\<close> give \<open>SystemError\<close>; and after a success the path
  exists, so that a second \<open>Create\<close> with the same id returns \<open>IdInUse\<close>.
\<close>

theorem Create_by_directory:
  assumes "Root l \<noteq> []" and "MatchString ident" and "length ident \<le> 1024"
    and "valid_config env l cfg"
  shows "(Stat os (Join (Root l) ident) = StatExists \<longrightarrow>
           (\<exists>e. Create env l os ident (Some cfg) = (Err (GenericError e IdInUse), l, os)))
    \<and> ((\<exists>c l' os'. Create env l os ident (Some cfg) = (Ok c, l', os')) \<longleftrightarrow>
          Stat os (Join (Root l) ident) = StatNotExist
          \<and> mkdir_fails os (Join (Root l) ident) = None)
    \<and> ((\<exists>e. Stat os (Join (Root l) ident) = StatFails e)
         \<or> (Stat os (Join (Root l) ident) = StatNotExist
             \<and> mkdir_fails os (Join (Root l) ident) \<noteq> None) \<longrightarrow>
          (\<exists>e. Create env l os ident (Some cfg) = (Err (GenericError e SystemError), l, os)))
    \<and> (\<forall>c l' os'. Create env l os ident (Some cfg) = (Ok c, l', os') \<longrightarrow>
          Stat os' (Join (Root l) ident) = StatExists
          \<and> (\<exists>e. Create env l' os' ident (Some cfg) = (Err (GenericError e IdInUse), l', os')))"
proof -
  have v: "validateID ident = None"
    using assms by (simp add: validateID_cases maxIdLen_def)
  note C = Create_valid [OF assms(1) v assms(4)]
  let ?p = "Join (Root l) ident"
  have 1: "Stat os ?p = StatExists \<longrightarrow>
           (\<exists>e. Create env l os ident (Some cfg) = (Err (GenericError e IdInUse), l, os))"
    by (simp add: C)
  have 2: "(\<exists>c l' os'. Create env l os ident (Some cfg) = (Ok c, l', os')) \<longleftrightarrow>
          Stat os ?p = StatNotExist \<and> mkdir_fails os ?p = None"
    by (auto simp: C MkdirAll_def Let_def split: stat_result.splits option.splits)
  have 3: "(\<exists>e. Stat os ?p = StatFails e)
         \<or> (Stat os ?p = StatNotExist \<and> mkdir_fails os ?p \<noteq> None) \<longrightarrow>
          (\<exists>e. Create env l os ident (Some cfg) = (Err (GenericError e SystemError), l, os))"
    by (auto simp: C MkdirAll_def)
  have 4: "Stat os' ?p = StatExists
          \<and> (\<exists>e. Create env l' os' ident (Some cfg) = (Err (GenericError e IdInUse), l', os'))"
    if ok: "Create env l os ident (Some cfg) = (Ok c, l', os')" for c l' os'
  proof -
    from ok have s: "Stat os ?p = StatNotExist"
      using 2 by blast
    from ok s obtain os1 where m: "MkdirAll os ?p = Inr os1"
      by (auto simp: C split: sum.splits)
    from ok s m have l': "l' = (if fst (isRootless env cfg) then RootlessCgroups l else l)"
      and os': "os' = os1"
      by (simp_all add: C Let_def)
    have e: "Stat os' ?p = StatExists"
      using MkdirAll_Inr [OF m] s os' by (simp add: Stat_def)
    have r: "Root l' = Root l" "valid_config env l' cfg"
      using l' assms(4) by (simp_all add: valid_config_RootlessCgroups) (simp add: RootlessCgroups_def)
    have "Create env l' os' ident (Some cfg) =
       (Err (GenericError (Errorf (''container with id exists: '' @ ident)) IdInUse), l', os')"
      using Create_valid [of l' ident env cfg os'] assms(1) v r e by simp
    with e show ?thesis by blast
  qed
  from 1 2 3 4 show ?thesis by blast
qed

theorem Create_by_directory_witness:
  "(\<exists>c l' os'. Create \<lparr>euid = 0, egid = 0\<rparr> (example_factory ''/run/demo'')
        (example_os (\<lambda>path. StatNotExist) (\<lambda>path. None)) ''c1'' (Some (config_of [] [] []))
      = (Ok c, l', os'))
   \<and> (\<exists>e. Create \<lparr>euid = 0, egid = 0\<rparr> (example_factory ''/run/demo'')
        (example_os (\<lambda>path. StatExists) (\<lambda>path. None)) ''c1'' (Some (config_of [] [] []))
      = (Err (GenericError e IdInUse), example_factory ''/run/demo'',
         example_os (\<lambda>path. StatExists) (\<lambda>path. None)))"
proof -
  have m: "MatchString ''c1''" "length ''c1'' \<le> 1024"
    by (simp_all add: MatchString_def idRegex_class_def)
  have c: "valid_config \<lparr>euid = 0, egid = 0\<rparr> (example_factory ''/run/demo'') (config_of [] [] [])"
    by (simp add: valid_config_def isRootless_def HostUID_def HostGID_def Contains_def
        Geteuid_def)
  show ?thesis
    using Create_by_directory [OF _ m c, of "example_os (\<lambda>path. StatNotExist) (\<lambda>path. None)"]
      Create_by_directory [OF _ m c, of "example_os (\<lambda>path. StatExists) (\<lambda>path. None)"]
    by (simp add: Stat_def)
qed

subsection \<open>The cgroup manager of a factory after a rootless container\<close>

lemma Create_factory:
  "Create env l os ident config = (r, l', os') \<Longrightarrow>
     l' = l \<or> (l' = RootlessCgroups l \<and> (\<exists>c. r = Ok c \<and> c_rootless c))"
  by (auto simp: Create_def Let_def split: if_splits option.splits prod.splits stat_result.splits sum.splits)

lemma Create_Ok_manager:
  "Create env l os ident config = (Ok c, l', os') \<Longrightarrow>
     c_cgroupManager c = NewCgroupsManager l' (Cgroups (c_config c)) None
     \<and> (\<exists>cfg. config = Some cfg \<and> c_config c = cfg \<and> c_rootless c = fst (isRootless env cfg))"
  by (auto simp: Create_def Let_def split: if_splits option.splits prod.splits stat_result.splits sum.splits)

lemma Load_Ok_manager:
  "Load l os ident = Ok c \<Longrightarrow>
     \<exists>state. loadState os (Join (Root l) ident) = Inr (Some state)
        \<and> c_cgroupManager c
            = NewCgroupsManager l (Cgroups (StateConfig state)) (CgroupPaths state)"
  by (auto simp: Load_def Let_def split: if_splits option.splits sum.splits)

text \<open>
  C9, as stated, fails: a call of \<open>Create\<close> with a rootless configuration that returns
  an error leaves the factory as it was. Here the container's path exists, \<open>Create\<close>
  returns \<open>IdInUse\<close>, and the factory still constructs the filesystem manager.
\<close>

theorem Create_rootless_in_use:
  "isRootless \<lparr>euid = 1000, egid = 1000\<rparr> (config_of [userns_entry] [root_to 1000] [root_to 1000])
     = (True, None)
   \<and> Create \<lparr>euid = 1000, egid = 1000\<rparr> (example_factory ''/run/demo'')
        (example_os (\<lambda>path. StatExists) (\<lambda>path. None)) ''c1''
        (Some (config_of [userns_entry] [root_to 1000] [root_to 1000]))
     = (Err (GenericError (Errorf ''container with id exists: c1'') IdInUse),
        example_factory ''/run/demo'', example_os (\<lambda>path. StatExists) (\<lambda>path. None))
   \<and> NewCgroupsManager (example_factory ''/run/demo'') None None = FsManager None None"
proof -
  have r: "isRootless \<lparr>euid = 1000, egid = 1000\<rparr> (config_of [userns_entry] [root_to 1000] [root_to 1000])
     = (True, None)"
    by (simp add: isRootless_def HostUID_def HostGID_def Contains_def Geteuid_def Getegid_def
      not_single_unit_def)
  have v: "validateID ''c1'' = None"
    by (simp add: validateID_def MatchString_def idRegex_class_def maxIdLen_def)
  have c: "valid_config \<lparr>euid = 1000, egid = 1000\<rparr> (example_factory ''/run/demo'')
      (config_of [userns_entry] [root_to 1000] [root_to 1000])"
    by (simp add: valid_config_def r RootlessValidator_Validate_def mount_def cgroup_def)
  show ?thesis
    using r v c by (simp add: Create_valid Stat_def)
qed

text \<open>
  C9, amended. When \<open>Create\<close> with a configuration for which \<open>isRootless\<close> reports true
  returns a container, the factory it leaves constructs rootless cgroup managers, and
  so is the manager of the container. A factory that constructs rootless managers
  keeps doing so through every further \<open>Create\<close>, whatever the configuration and the
  outcome, and every container that a further \<open>Create\<close> or \<open>Load\<close> on it returns has
  a rootless manager.
\<close>

theorem Create_rootless_persists:
  "(Create env l os ident (Some cfg) = (Ok c, l', os') \<and> fst (isRootless env cfg) \<longrightarrow>
      NewCgroupsManager l' = rootless_constructor
      \<and> c_cgroupManager c = RootlessManager \<lparr>m_Cgroups = Cgroups cfg, m_Paths = None\<rparr>)
   \<and> (NewCgroupsManager l2 = rootless_constructor \<longrightarrow>
        (\<forall>r2 l2' os2'. Create env2 l2 os2 ident2 config2 = (r2, l2', os2') \<longrightarrow>
           NewCgroupsManager l2' = rootless_constructor
           \<and> (\<forall>c2. r2 = Ok c2 \<longrightarrow>
                 c_cgroupManager c2
                   = RootlessManager \<lparr>m_Cgroups = Cgroups (c_config c2), m_Paths = None\<rparr>))
        \<and> (\<forall>c3. Load l2 os3 ident3 = Ok c3 \<longrightarrow> (\<exists>m. c_cgroupManager c3 = RootlessManager m)))"
proof (intro conjI impI allI)
  assume a: "Create env l os ident (Some cfg) = (Ok c, l', os') \<and> fst (isRootless env cfg)"
  then have "l' = RootlessCgroups l"
    using Create_factory [of env l os ident "Some cfg" "Ok c" l' os'] Create_Ok_manager [of env l os ident "Some cfg" c l' os']
    by (auto simp: Create_def Let_def split: if_splits option.splits prod.splits stat_result.splits sum.splits)
  then show "NewCgroupsManager l' = rootless_constructor"
    by (simp add: RootlessCgroups_def)
  with a show "c_cgroupManager c = RootlessManager \<lparr>m_Cgroups = Cgroups cfg, m_Paths = None\<rparr>"
    using Create_Ok_manager [of env l os ident "Some cfg" c l' os'] by simp
next
  fix r2 l2' os2'
  assume n: "NewCgroupsManager l2 = rootless_constructor"
    and c: "Create env2 l2 os2 ident2 config2 = (r2, l2', os2')"
  show k: "NewCgroupsManager l2' = rootless_constructor"
    using Create_factory [OF c] n by (auto simp: RootlessCgroups_def)
  fix c2 assume "r2 = Ok c2"
  then show "c_cgroupManager c2 = RootlessManager \<lparr>m_Cgroups = Cgroups (c_config c2), m_Paths = None\<rparr>"
    using Create_Ok_manager [of env2 l2 os2 ident2 config2 c2 l2' os2'] c k by simp
next
  fix c3
  assume "NewCgroupsManager l2 = rootless_constructor" "Load l2 os3 ident3 = Ok c3"
  then show "\<exists>m. c_cgroupManager c3 = RootlessManager m"
    using Load_Ok_manager [of l2 os3 ident3 c3] by auto
qed


theorem Create_rootless_persists_witness:
  "(\<exists>c os'. Create \<lparr>euid = 1000, egid = 1000\<rparr> (example_factory ''/run/demo'')
        (example_os (\<lambda>path. StatNotExist) (\<lambda>path. None)) ''c1''
        (Some (config_of [userns_entry] [root_to 1000] [root_to 1000]))
      = (Ok c, RootlessCgroups (example_factory ''/run/demo''), os')
      \<and> c_cgroupManager c = RootlessManager \<lparr>m_Cgroups = None, m_Paths = None\<rparr>)
   \<and> (\<exists>c os'. Create \<lparr>euid = 0, egid = 0\<rparr> (RootlessCgroups (example_factory ''/run/demo''))
        (example_os (\<lambda>path. StatNotExist) (\<lambda>path. None)) ''c2'' (Some (config_of [] [] []))
      = (Ok c, RootlessCgroups (example_factory ''/run/demo''), os')
      \<and> \<not> c_rootless c
      \<and> c_cgroupManager c = RootlessManager \<lparr>m_Cgroups = None, m_Paths = None\<rparr>)"
proof -
  let ?F = "example_factory ''/run/demo''"
  let ?os = "example_os (\<lambda>path. StatNotExist) (\<lambda>path. None)"
  let ?cfg = "config_of [userns_entry] [root_to 1000] [root_to 1000]"
  have r: "isRootless \<lparr>euid = 1000, egid = 1000\<rparr> ?cfg = (True, None)"
    by (simp add: isRootless_def HostUID_def HostGID_def Contains_def Geteuid_def Getegid_def
      not_single_unit_def)
  have r0: "isRootless \<lparr>euid = 0, egid = 0\<rparr> (config_of [] [] []) = (False, None)"
    by (simp add: isRootless_def HostUID_def HostGID_def Contains_def Geteuid_def)
  have v: "validateID ''c1'' = None" "validateID ''c2'' = None"
    by (simp_all add: validateID_def MatchString_def idRegex_class_def maxIdLen_def)
  have c: "valid_config \<lparr>euid = 1000, egid = 1000\<rparr> ?F ?cfg"
    by (simp add: valid_config_def r RootlessValidator_Validate_def mount_def cgroup_def)
  have c0: "valid_config \<lparr>euid = 0, egid = 0\<rparr> (RootlessCgroups ?F) (config_of [] [] [])"
    by (simp add: valid_config_def r0 RootlessCgroups_def)
  have "\<exists>c1 os1. Create \<lparr>euid = 1000, egid = 1000\<rparr> ?F ?os ''c1'' (Some ?cfg)
      = (Ok c1, RootlessCgroups ?F, os1)"
    using v c r by (simp add: Create_valid Stat_def MkdirAll_def Let_def)
  then obtain c1 os1 where 1: "Create \<lparr>euid = 1000, egid = 1000\<rparr> ?F ?os ''c1'' (Some ?cfg)
      = (Ok c1, RootlessCgroups ?F, os1)"
    by blast
  have "\<exists>c2 os2. Create \<lparr>euid = 0, egid = 0\<rparr> (RootlessCgroups ?F) ?os ''c2''
      (Some (config_of [] [] [])) = (Ok c2, RootlessCgroups ?F, os2) \<and> \<not> c_rootless c2"
    using v c0 r0 by (simp add: Create_valid Stat_def MkdirAll_def Let_def RootlessCgroups_def)
  then obtain c2 os2 where 2: "Create \<lparr>euid = 0, egid = 0\<rparr> (RootlessCgroups ?F) ?os ''c2''
      (Some (config_of [] [] [])) = (Ok c2, RootlessCgroups ?F, os2)" "\<not> c_rootless c2"
    by blast
  have k2: "c_config c2 = config_of [] [] []"
    using Create_Ok_manager [OF 2(1)] by simp
  have n: "NewCgroupsManager (RootlessCgroups ?F) = rootless_constructor"
    using Create_rootless_persists [of "\<lparr>euid = 1000, egid = 1000\<rparr>" ?F ?os "''c1''" ?cfg c1
        "RootlessCgroups ?F" os1] 1 r by simp
  have m1: "c_cgroupManager c1 = RootlessManager \<lparr>m_Cgroups = None, m_Paths = None\<rparr>"
    using Create_rootless_persists [of "\<lparr>euid = 1000, egid = 1000\<rparr>" ?F ?os "''c1''" ?cfg c1
        "RootlessCgroups ?F" os1] 1 r by simp
  have m2: "c_cgroupManager c2 = RootlessManager \<lparr>m_Cgroups = None, m_Paths = None\<rparr>"
    using Create_rootless_persists [of _ _ _ _ _ _ _ _ "RootlessCgroups ?F"
        "\<lparr>euid = 0, egid = 0\<rparr>" ?os "''c2''" "Some (config_of [] [] [])"] n 2 k2 by simp
  show ?thesis
    using 1 2 m1 m2 by blast
qed

subsection \<open>The init process\<close>

text \<open>
  C2, as stated, fails: when the variable with the pipe descriptor is no integer,
  \<open>StartInitialization\<close> returns the error before the deferred functions are
  registered. The run fails before the process image is replaced, and nothing is
  written to a pipe and no pipe is closed.
\<close>

theorem StartInitialization_no_pipe:
  "StartInitialization
     (example_run [] (Inl (Errorf ''invalid syntax'')) (Returns (Inr linuxStandardInit))
        InitExecs)
   = ([], Return (Some (Errorf (''error converting env var _LIBCONTAINER_INITPIPE(''
        @ [CHR 0x22, CHR 0x22] @ '') to an int: invalid syntax''))))"
  by (simp add: StartInitialization_def)

text \<open>
  C2, amended. For every run in which the pipe descriptor is an integer and the body
  fails or panics before the process image is replaced: the fault, a panic turned into
  an error, is the error result; when the writes succeed, the system error made of it
  is written to the pipe as the last message, after a sync token exactly when
  \<^verbatim>\<open>newContainerInit\<close> returned a standard initer, and then the pipe is closed; when a
  write fails, the function panics with the error of the write, and neither has the
  system error been written nor is the pipe closed by the function.
\<close>

theorem StartInitialization_sends_fault:
  assumes "Atoi run = Inr pipefd" and "fault run = Some f"
  shows "(let e = recover_panic run f;
              standard = (made_initer run = Some linuxStandardInit) in
          ((standard \<longrightarrow> WriteJSON_sync run = None) \<and> WriteJSON_error run e = None \<longrightarrow>
             StartInitialization run
               = ((if standard then [WroteSync] else []) @ [WroteSystemError e, ClosedPipe],
                  Return e))
          \<and> ((standard \<and> WriteJSON_sync run \<noteq> None) \<or> WriteJSON_error run e \<noteq> None \<longrightarrow>
               (\<exists>events werr. StartInitialization run = (events, Panicked (PanicError werr))
                  \<and> ClosedPipe \<notin> set events \<and> WroteSystemError e \<notin> set events)))"
  using assms
  by (auto simp: StartInitialization_def fault_def made_initer_def send_error_def Let_def
      split: call.splits sum.splits init_call.splits option.splits)

theorem StartInitialization_sends_fault_witness:
  "StartInitialization
     (example_run ''3'' (Inr 3) (Returns (Inr linuxStandardInit)) (InitPanics (PanicText ''boom'')))
   = ([WroteSync,
       WroteSystemError (Some (Errorf ''panic from initialization: boom, goroutine 1'')),
       ClosedPipe],
      Return (Some (Errorf ''panic from initialization: boom, goroutine 1'')))
   \<and> StartInitialization
       (example_run ''3'' (Inr 3) (Returns (Inl (Errorf ''bad config''))) InitExecs)
     = ([WroteSystemError (Some (Errorf ''bad config'')), ClosedPipe],
        Return (Some (Errorf ''bad config'')))"
  using StartInitialization_sends_fault
      [of "example_run ''3'' (Inr 3) (Returns (Inr linuxStandardInit))
             (InitPanics (PanicText ''boom''))"
          3 "Panics (PanicText ''boom'')"]
    StartInitialization_sends_fault
      [of "example_run ''3'' (Inr 3) (Returns (Inl (Errorf ''bad config''))) InitExecs"
          3 "Returns (Some (Errorf ''bad config''))"]
  by (simp add: fault_def made_initer_def recover_panic_def Let_def)

subsection \<open>Listing the containers\<close>






end
